theory Spec2Isabelle
  imports Complex_Main
begin

section \<open>tcxaet: per-lap heart-rate and cardiac-drift statistics from TCX files\<close>

text \<open>
  A shallow embedding of \<^verbatim>\<open>tcxaet.py\<close> (Python 3). Conventions of the embedding:
  \<^item> Python floats are exact reals, Python ints are integers; instants are reals
    (seconds since the epoch, UTC), durations are reals (seconds).
  \<^item> A division is Python's \<^verbatim>\<open>/\<close>: it raises \<^verbatim>\<open>ZeroDivisionError\<close> on a zero divisor,
    which is what the handler of \<^verbatim>\<open>parse_laps\<close> is written for. The scalar types of
    numpy, which give \<^verbatim>\<open>inf\<close> or \<^verbatim>\<open>nan\<close> with a warning instead, and the rounding of
    IEEE doubles are outside the embedding.
  \<^item> Every exception of the source is a value of \<open>error\<close>; a function that can raise
    returns \<open>error + 'a\<close>.
    What an aborted run had printed before the exception is not kept.
  \<^item> The text nodes that the XPath queries return are taken as already converted
    (\<^verbatim>\<open>float(i)\<close>, \<^verbatim>\<open>int(str(i))\<close>, \<^verbatim>\<open>pd.to_datetime(str(i))\<close> succeed on them).
\<close>

subsection \<open>Constants and exceptions\<close>

datatype error =
    ZeroDivisionError
  | IndexError
  | OverflowError
  | ValueError
  | KeyError
  | IOError
  | UnknownTimeZoneError
  | TypeError
  | MalformedLapError
  | NotTimeOrdered

definition METERS2MILES :: real where
  "METERS2MILES = 160934 / 100"

definition MIN2SECS :: real where
  "MIN2SECS = 60"

definition py_div :: "real \<Rightarrow> real \<Rightarrow> error + real" where
  "py_div a b = (if b = 0 then Inl ZeroDivisionError else Inr (a / b))"

text \<open>Sequencing of computations that can raise.\<close>

definition try_bind :: "error + 'a \<Rightarrow> ('a \<Rightarrow> error + 'b) \<Rightarrow> error + 'b" where
  "try_bind m f = (case m of Inl e \<Rightarrow> Inl e | Inr x \<Rightarrow> f x)"

text \<open>\<^verbatim>\<open>int(x)\<close> of a float truncates towards zero.\<close>

definition py_int :: "real \<Rightarrow> int" where
  "py_int x = (if 0 \<le> x then \<lfloor>x\<rfloor> else \<lceil>x\<rceil>)"

text \<open>\<^verbatim>\<open>round(x)\<close> of Python 3 rounds to the nearest integer, a tie to the even one.\<close>

definition py_round :: "real \<Rightarrow> int" where
  "py_round x =
     (let f = \<lfloor>x\<rfloor>; d = x - of_int f
      in if d < 1 / 2 then f
         else if 1 / 2 < d then f + 1
         else if even f then f else f + 1)"

subsection \<open>Strings of numbers\<close>

definition digit_char :: "nat \<Rightarrow> char" where
  "digit_char n = ''0123456789'' ! n"

function str_nat :: "nat \<Rightarrow> string" where
  "str_nat n = (if n < 10 then [digit_char n] else str_nat (n div 10) @ [digit_char (n mod 10)])"
  by pat_completeness auto
termination
  by (relation "measure (\<lambda>n. n)") auto

declare str_nat.simps [simp del]

definition str_int :: "int \<Rightarrow> string" where
  "str_int i = (if i < 0 then CHR ''-'' # str_nat (nat (- i)) else str_nat (nat i))"

text \<open>\<^verbatim>\<open>s.zfill(w)\<close>: zeros on the left up to width \<open>w\<close>, after a leading sign.\<close>

definition zfill :: "nat \<Rightarrow> string \<Rightarrow> string" where
  "zfill w s =
     (case s of
        [] \<Rightarrow> replicate w (CHR ''0'')
      | c # rest \<Rightarrow>
          if c = CHR ''-'' \<or> c = CHR ''+''
          then c # replicate (w - length s) (CHR ''0'') @ rest
          else replicate (w - length s) (CHR ''0'') @ s)"

subsection \<open>\<^verbatim>\<open>datetime.timedelta\<close>\<close>

text \<open>
  A \<^verbatim>\<open>timedelta\<close> is a whole number of microseconds, normalised to days, seconds of
  the day and microseconds of the second. The constructor rounds to the nearest
  microsecond (a tie to even) and raises \<^verbatim>\<open>OverflowError\<close> beyond 999999999 days.
\<close>

record timedelta =
  td_days :: int
  td_seconds :: int
  td_microseconds :: int

definition timedelta_of_minutes :: "real \<Rightarrow> error + timedelta" where
  "timedelta_of_minutes val =
     (let us = py_round (val * 60 * 1000000);
          d = us div 86400000000;
          r = us mod 86400000000
      in if d < - 999999999 \<or> 999999999 < d then Inl OverflowError
         else Inr \<lparr>td_days = d, td_seconds = r div 1000000, td_microseconds = r mod 1000000\<rparr>)"

text \<open>
  \<^verbatim>\<open>str(delta)\<close> is \<^verbatim>\<open>[D day[s], ]H:MM:SS[.ffffff]\<close>. The day prefix holds no colon, so
  \<^verbatim>\<open>str(delta).split(":")\<close> has three parts: the (prefixed) hours, the minutes as
  \<^verbatim>\<open>%02d\<close>, and the seconds as \<^verbatim>\<open>%02d\<close> followed by \<^verbatim>\<open>.%06d\<close> of the microseconds when
  they are not zero.
\<close>

definition td_minutes_part :: "timedelta \<Rightarrow> string" where
  "td_minutes_part delta = zfill 2 (str_int ((td_seconds delta div 60) mod 60))"

text \<open>The value of \<^verbatim>\<open>float(l[-1])\<close>: the seconds of the minute with their fraction.\<close>

definition td_seconds_part :: "timedelta \<Rightarrow> real" where
  "td_seconds_part delta =
     of_int (td_seconds delta mod 60) + of_int (td_microseconds delta) / 1000000"

subsection \<open>Pace and speed conversions\<close>

definition mil_min_val_to_mil_min_string :: "real \<Rightarrow> error + string" where
  "mil_min_val_to_mil_min_string val =
     (if val = 0 then Inr ''00:00''
      else case timedelta_of_minutes val of
             Inl e \<Rightarrow> Inl e
           | Inr delta \<Rightarrow>
               Inr (td_minutes_part delta @ '':''
                    @ zfill 2 (str_int (py_round (td_seconds_part delta)))))"

definition meter_sec_2_min_miles :: "real \<Rightarrow> error + real" where
  "meter_sec_2_min_miles n =
     (let miles_a_minute = n / METERS2MILES * 60
      in if miles_a_minute = 0 then Inr 0 else py_div 1 miles_a_minute)"

definition min_miles2meter_sec :: "real \<Rightarrow> error + real" where
  "min_miles2meter_sec n =
     (let secs_per_meter = n * 60 / METERS2MILES in py_div 1 secs_per_meter)"

text \<open>The pace column of a row: \<^verbatim>\<open>mil_min_val_to_mil_min_string(meter_sec_2_min_miles(speed))\<close>.\<close>

definition pace_of_speed :: "real \<Rightarrow> error + string" where
  "pace_of_speed speed =
     (case meter_sec_2_min_miles speed of
        Inl e \<Rightarrow> Inl e
      | Inr val \<Rightarrow> mil_min_val_to_mil_min_string val)"

subsection \<open>Command-line arguments and the time-zone collaborator\<close>

text \<open>
  A pytz time zone gives, for every UTC instant, the fixed-offset \<^verbatim>\<open>tzinfo\<close> object in
  force at that instant; two datetimes of one zone carry the same \<^verbatim>\<open>tzinfo\<close> object
  exactly when they fall in the same period, and then have the same offset.
\<close>

type_synonym instant = real

record tzinfo =
  utcoffset :: real
  tzname :: string

type_synonym timezone = "instant \<Rightarrow> tzinfo"

text \<open>
  \<open>args\<close> holds the parsed command line (\<^verbatim>\<open>args.treadmill\<close> is \<^verbatim>\<open>None\<close> or a float) and
  \<open>timezone_at\<close>, the lookup \<^verbatim>\<open>pytz.timezone(TimezoneFinder().timezone_at(lng, lat))\<close>,
  which is \<open>None\<close> where the finder knows no zone.
\<close>

record args =
  details :: bool
  columns :: bool
  local_time :: bool
  treadmill :: "real option"
  timezone_at :: "real \<times> real \<Rightarrow> timezone option"

text \<open>The truth value of \<^verbatim>\<open>args.treadmill\<close>: \<^verbatim>\<open>None\<close> and \<^verbatim>\<open>0.0\<close> are false.\<close>

definition treadmill_on :: "'a args_scheme \<Rightarrow> bool" where
  "treadmill_on a = (case treadmill a of None \<Rightarrow> False | Some p \<Rightarrow> p \<noteq> 0)"

subsection \<open>Laps as read from the files\<close>

text \<open>
  One \<^verbatim>\<open>tcd:Lap\<close> element, as the results of the XPath queries that
  \<^verbatim>\<open>parse_tcx_lap\<close> makes on it, each in document order.
\<close>

record xml_lap =
  xp_LongitudeDegrees :: "real list"
  xp_LatitudeDegrees :: "real list"
  xp_TotalTimeSeconds :: "real list"
  xp_DistanceMeters :: "real list"
  xp_HeartRateBpm_Value :: "int list"
  xp_Trackpoint_DistanceMeters :: "real list"
  xp_Trackpoint_Time :: "instant list"

text \<open>A row of the data frame \<^verbatim>\<open>Trackpoints_series\<close>: the index and the two columns.\<close>

record trackpoint =
  tp_time :: instant
  Bpm :: int
  Distance :: int

type_synonym frame = "trackpoint list"

text \<open>
  \<^verbatim>\<open>pd.DataFrame({'Bpm': Bpm, 'Distance': Distance}, index=Time)\<close> raises
  \<^verbatim>\<open>ValueError\<close> unless the two columns and the index have one length.
\<close>

definition DataFrame :: "int list \<Rightarrow> int list \<Rightarrow> instant list \<Rightarrow> error + frame" where
  "DataFrame bpm distance time =
     (if length bpm = length distance \<and> length distance = length time
      then Inr (map (\<lambda>(t, b, d). \<lparr>tp_time = t, Bpm = b, Distance = d\<rparr>)
                    (zip time (zip bpm distance)))
      else Inl ValueError)"

record lap_data =
  Lap_coords :: "(real \<times> real) option"
  Filename :: string
  TotalTimeSeconds :: int
  DistanceMeters :: "real list"
  Trackpoints_series :: frame

text \<open>What the program prints on the error stream.\<close>

datatype diagnostic =
    NoCoordinates
  | ExceptionText error
  | SkippingLap nat

text \<open>
  The body of the loop of \<^verbatim>\<open>parse_tcx_lap\<close> for one lap. The length test is the
  chained comparison \<^verbatim>\<open>len(Bpm) != len(Distance) != len(Time)\<close>, that is
  \<^verbatim>\<open>len(Bpm) != len(Distance) and len(Distance) != len(Time)\<close>.
\<close>

definition parse_one_lap :: "string \<Rightarrow> xml_lap \<Rightarrow> error + lap_data \<times> diagnostic list" where
  "parse_one_lap filename lap =
     (let (coords, out) =
            (if xp_LongitudeDegrees lap = [] \<or> xp_LatitudeDegrees lap = []
             then (None, [NoCoordinates])
             else (Some (hd (xp_LongitudeDegrees lap), hd (xp_LatitudeDegrees lap)), []))
      in case xp_TotalTimeSeconds lap of
           [] \<Rightarrow> Inl IndexError
         | total_time # _ \<Rightarrow>
             let bpm = xp_HeartRateBpm_Value lap;
                 distance = map py_int (xp_Trackpoint_DistanceMeters lap);
                 time = xp_Trackpoint_Time lap
             in if length bpm \<noteq> length distance \<and> length distance \<noteq> length time
                then Inl MalformedLapError
                else case DataFrame bpm distance time of
                       Inl e \<Rightarrow> Inl e
                     | Inr series \<Rightarrow>
                         Inr (\<lparr>Lap_coords = coords, Filename = filename,
                               TotalTimeSeconds = py_int total_time,
                               DistanceMeters = tl (xp_DistanceMeters lap),
                               Trackpoints_series = series\<rparr>, out))"

fun parse_tcx_lap :: "(string \<times> xml_lap) list \<Rightarrow> error + lap_data list \<times> diagnostic list" where
  "parse_tcx_lap [] = Inr ([], [])"
| "parse_tcx_lap ((filename, lap) # file_laps) =
     (case parse_one_lap filename lap of
        Inl e \<Rightarrow> Inl e
      | Inr (lap_data, out) \<Rightarrow>
          (case parse_tcx_lap file_laps of
             Inl e \<Rightarrow> Inl e
           | Inr (laps, outs) \<Rightarrow> Inr (lap_data # laps, out @ outs)))"

text \<open>
  \<^verbatim>\<open>read_tcx_files\<close>: \<open>fs\<close> is the file system seen through \<^verbatim>\<open>open\<close>, \<^verbatim>\<open>ET.parse\<close> and
  the query \<^verbatim>\<open>.//tcd:Lap\<close> (the laps of a file in document order, \<open>None\<close> for a file that
  cannot be opened or parsed); \<open>basename\<close> is \<^verbatim>\<open>ntpath.basename\<close>.
\<close>

fun read_tcx_files ::
  "(string \<Rightarrow> string) \<Rightarrow> (string \<Rightarrow> xml_lap list option) \<Rightarrow> string list
   \<Rightarrow> error + (string \<times> xml_lap) list" where
  "read_tcx_files basename fs [] = Inr []"
| "read_tcx_files basename fs (filename # filename_list) =
     (case fs filename of
        None \<Rightarrow> Inl IOError
      | Some file_laps \<Rightarrow>
          (case read_tcx_files basename fs filename_list of
             Inl e \<Rightarrow> Inl e
           | Inr all_laps \<Rightarrow> Inr (map (\<lambda>lap. (basename filename, lap)) file_laps @ all_laps)))"

subsection \<open>Datetimes\<close>

text \<open>
  A time of a row is either a numpy \<^verbatim>\<open>datetime64\<close> (a UTC instant, the index values of the
  frame) or an aware Python \<^verbatim>\<open>datetime\<close>: a wall-clock reading with its \<^verbatim>\<open>tzinfo\<close>.
\<close>

datatype timeval = Datetime64 instant | Aware real tzinfo

definition pytz_utc :: tzinfo where
  "pytz_utc = \<lparr>utcoffset = 0, tzname = ''UTC''\<rparr>"

fun utc_instant :: "timeval \<Rightarrow> instant" where
  "utc_instant (Datetime64 t) = t"
| "utc_instant (Aware wall tz) = wall - utcoffset tz"

definition astimezone :: "timeval \<Rightarrow> timezone \<Rightarrow> timeval" where
  "astimezone dt zone = (let t = utc_instant dt in Aware (t + utcoffset (zone t)) (zone t))"

text \<open>
  Subtraction. Two aware datetimes with the same \<^verbatim>\<open>tzinfo\<close> object subtract as their
  wall-clock readings; with different ones both are taken to UTC first.
\<close>

fun time_minus :: "timeval \<Rightarrow> timeval \<Rightarrow> error + real" where
  "time_minus (Datetime64 a) (Datetime64 b) = Inr (a - b)"
| "time_minus (Aware a tza) (Aware b tzb) =
     Inr (if tza = tzb then a - b else (a - utcoffset tza) - (b - utcoffset tzb))"
| "time_minus (Datetime64 a) (Aware b tzb) = Inl TypeError"
| "time_minus (Aware a tza) (Datetime64 b) = Inl TypeError"

definition UTC_datetime2local :: "args \<Rightarrow> instant \<Rightarrow> real \<times> real \<Rightarrow> error + timeval" where
  "UTC_datetime2local a datetime coords =
     (let datetime = Aware datetime pytz_utc
      in case timezone_at a coords of
           None \<Rightarrow> Inl UnknownTimeZoneError
         | Some zone \<Rightarrow> Inr (astimezone datetime zone))"

definition get_lap_times_and_duration ::
  "args \<Rightarrow> lap_data \<Rightarrow> error + timeval \<times> timeval \<times> real" where
  "get_lap_times_and_duration a lap_data =
     (case Trackpoints_series lap_data of
        [] \<Rightarrow> Inl IndexError
      | first # others \<Rightarrow>
          let beginning_time = tp_time first;
              end_time = tp_time (last (first # others))
          in try_bind
               (case Lap_coords lap_data of
                  Some coords \<Rightarrow>
                    if local_time a
                    then try_bind (UTC_datetime2local a beginning_time coords) (\<lambda>b.
                         try_bind (UTC_datetime2local a end_time coords) (\<lambda>e. Inr (b, e)))
                    else Inr (Datetime64 beginning_time, Datetime64 end_time)
                | None \<Rightarrow> Inr (Datetime64 beginning_time, Datetime64 end_time))
               (\<lambda>(b, e). try_bind (time_minus e b) (\<lambda>duration. Inr (b, e, duration))))"

subsection \<open>The pandas operations on a lap's frame\<close>

text \<open>
  The frames of the halves are taken by label on the time index. On an index in
  ascending order \<^verbatim>\<open>truncate(after=t)\<close> keeps the leading rows up to the last label
  \<open>\<le> t\<close>, and the slice \<^verbatim>\<open>[t0:t1]\<close> the rows from the first label \<open>\<ge> t0\<close> to the last
  label \<open>\<le> t1\<close>. On any other index pandas raises or slices by rules of its own; the
  embedding stops there with \<open>NotTimeOrdered\<close>.
\<close>

definition truncate_after :: "instant \<Rightarrow> frame \<Rightarrow> error + frame" where
  "truncate_after after series =
     (if sorted (map tp_time series)
      then Inr (takeWhile (\<lambda>r. tp_time r \<le> after) series)
      else Inl NotTimeOrdered)"

definition loc_slice :: "instant \<Rightarrow> instant \<Rightarrow> frame \<Rightarrow> error + frame" where
  "loc_slice start stop series =
     (if sorted (map tp_time series)
      then Inr (takeWhile (\<lambda>r. tp_time r \<le> stop) (dropWhile (\<lambda>r. tp_time r < start) series))
      else Inl NotTimeOrdered)"

definition index_min :: "frame \<Rightarrow> instant" where
  "index_min series = Min (set (map tp_time series))"

definition index_max :: "frame \<Rightarrow> instant" where
  "index_max series = Max (set (map tp_time series))"

text \<open>\<^verbatim>\<open>DataFrame.size\<close> is the number of cells: the rows times the two columns.\<close>

definition frame_size :: "frame \<Rightarrow> int" where
  "frame_size series = int (length series) * 2"

text \<open>
  The mean, maximum and minimum of a column. Every column the program takes them of
  is not empty (lemma \<open>halves_nonempty\<close>), so the \<^verbatim>\<open>nan\<close> that pandas gives on an empty
  column does not arise.
\<close>

definition series_mean :: "int list \<Rightarrow> real" where
  "series_mean xs = of_int (sum_list xs) / of_nat (length xs)"

definition series_max :: "int list \<Rightarrow> int" where
  "series_max xs = Max (set xs)"

definition series_min :: "int list \<Rightarrow> int" where
  "series_min xs = Min (set xs)"

text \<open>\<^verbatim>\<open>series[0]\<close> and \<^verbatim>\<open>series[-1]\<close>, by position.\<close>

definition series_first :: "int list \<Rightarrow> error + int" where
  "series_first xs = (case xs of [] \<Rightarrow> Inl IndexError | x # _ \<Rightarrow> Inr x)"

definition series_last :: "int list \<Rightarrow> error + int" where
  "series_last xs = (if xs = [] then Inl IndexError else Inr (last xs))"

definition lap_halftime_value :: "lap_data \<Rightarrow> instant" where
  "lap_halftime_value lap =
     index_min (Trackpoints_series lap)
     + (index_max (Trackpoints_series lap) - index_min (Trackpoints_series lap)) / 2"

text \<open>
  The two halves of a lap, as \<^verbatim>\<open>parse_laps\<close> takes them:
  \<^verbatim>\<open>lap['Trackpoints_series'].truncate(after = lap_row["Halftime"])\<close> and
  \<^verbatim>\<open>lap['Trackpoints_series'][lap_halftime_value(lap):lap['Trackpoints_series'].index.max()]\<close>.
\<close>

definition first_half :: "lap_data \<Rightarrow> error + frame" where
  "first_half lap = truncate_after (lap_halftime_value lap) (Trackpoints_series lap)"

definition second_half :: "lap_data \<Rightarrow> error + frame" where
  "second_half lap =
     loc_slice (lap_halftime_value lap) (index_max (Trackpoints_series lap)) (Trackpoints_series lap)"

subsection \<open>Rows of the report\<close>

text \<open>
  A row is the dictionary \<^verbatim>\<open>lap_row\<close>: its keys in the order they were set. The keys
  are the column names of the source, spelled as there.
\<close>

datatype column =
    Filename_col | Beginning_time | End_time | Duration
  | Total_distance | N_Trackpoints | Total_time | Avg_BPM | Speed | Pace
  | Trackpoints | Halftime
  | Half1_distance | Half1_speed | Half1_pace | Half1_avg_BPM | Half1_ratio
  | Half2_distance | Half2_speed | Half2_pace | Half2_avg_BPM | Half2_ratio
  | Drift | BPM_only_drift

fun column_name :: "column \<Rightarrow> string" where
  "column_name Filename_col = ''Filename''"
| "column_name Beginning_time = ''Beginning time''"
| "column_name End_time = ''End time''"
| "column_name Duration = ''Duration''"
| "column_name Total_distance = ''Total distance''"
| "column_name N_Trackpoints = ''# Trackpoints''"
| "column_name Total_time = ''Total time''"
| "column_name Avg_BPM = ''Avg. BPM''"
| "column_name Speed = ''Speed (m/s)''"
| "column_name Pace = ''Pace (min:mi)''"
| "column_name Trackpoints = ''Trackpoints''"
| "column_name Halftime = ''Halftime''"
| "column_name Half1_distance = ''1st half distance''"
| "column_name Half1_speed = ''1st half speed (m/s)''"
| "column_name Half1_pace = ''1st half pace (min:mi)''"
| "column_name Half1_avg_BPM = ''1st half avg. BPM''"
| "column_name Half1_ratio = ''1st half speed/avg. BPM ratio''"
| "column_name Half2_distance = ''2nd half distance''"
| "column_name Half2_speed = ''2nd half speed (m/s)''"
| "column_name Half2_pace = ''2nd half pace (min:mi)''"
| "column_name Half2_avg_BPM = ''2nd half avg. BPM''"
| "column_name Half2_ratio = ''2nd half speed/avg. BPM ratio''"
| "column_name Drift = ''1st/2nd half drift''"
| "column_name BPM_only_drift = ''1st/2nd hald BPM-only drift''"

datatype val =
    VStr string
  | VNum real
  | VInt int
  | VTime timeval
  | VDur real
  | VFrame frame

type_synonym row = "(column \<times> val) list"


subsection \<open>The metrics of one lap\<close>

text \<open>
  The speed of the whole lap and of each half: measured, or the constant of the
  treadmill pace when \<^verbatim>\<open>args.treadmill\<close> is true.
\<close>

definition speed_value :: "args \<Rightarrow> real \<Rightarrow> real \<Rightarrow> error + real" where
  "speed_value a distance time =
     (if \<not> treadmill_on a then py_div distance time
      else min_miles2meter_sec (the (treadmill a)))"

text \<open>
  One statement of the \<^verbatim>\<open>try\<close> block: an exception leaves the row as it is and ends
  the block with that exception.
\<close>

definition step :: "row \<Rightarrow> error + 'a \<Rightarrow> ('a \<Rightarrow> row \<times> error option) \<Rightarrow> row \<times> error option" where
  "step lap_row e k = (case e of Inl err \<Rightarrow> (lap_row, Some err) | Inr x \<Rightarrow> k x)"

text \<open>
  The \<^verbatim>\<open>try\<close> block of \<^verbatim>\<open>parse_laps\<close> for one lap: the row as far as it was filled, and
  the exception that ended the block, if any.
\<close>

definition lap_body :: "args \<Rightarrow> lap_data \<Rightarrow> row \<times> error option" where
  "lap_body a lap =
    (let series = Trackpoints_series lap;
         r1 = [(Filename_col, VStr (Filename lap))]
     in
     step r1 (get_lap_times_and_duration a lap) (\<lambda>(beginning_time, end_time, duration).
     let r2 = r1 @ [(Beginning_time, VTime beginning_time), (End_time, VTime end_time),
                    (Duration, VDur duration)]
     in
     step r2 (series_last (map Distance series)) (\<lambda>distance_last.
     step r2 (series_first (map Distance series)) (\<lambda>distance_first.
     let total_distance = real_of_int distance_last - real_of_int distance_first;
         total_time = TotalTimeSeconds lap;
         r3 = r2 @ [(Total_distance, VNum total_distance),
                    (N_Trackpoints, VInt (frame_size series)),
                    (Total_time, VInt total_time),
                    (Avg_BPM, VNum (series_mean (map Bpm series)))]
     in
     step r3 (speed_value a total_distance (real_of_int total_time)) (\<lambda>speed.
     let r4 = r3 @ [(Speed, VNum speed)]
     in
     step r4 (pace_of_speed speed) (\<lambda>pace.
     let halftime = lap_halftime_value lap;
         r5 = r4 @ [(Pace, VStr pace), (Trackpoints, VFrame series),
                    (Halftime, VTime (Datetime64 halftime))]
     in
     step r5 (first_half lap) (\<lambda>first_half.
     let distance1 = series_max (map Distance first_half) - series_min (map Distance first_half);
         r6 = r5 @ [(Half1_distance, VInt distance1)]
     in
     step r6 (speed_value a (real_of_int distance1) (real_of_int total_time / 2)) (\<lambda>speed1.
     let r7 = r6 @ [(Half1_speed, VNum speed1)]
     in
     step r7 (pace_of_speed speed1) (\<lambda>pace1.
     let avg1 = series_mean (map Bpm first_half);
         r8 = r7 @ [(Half1_pace, VStr pace1), (Half1_avg_BPM, VNum avg1)]
     in
     step r8 (py_div speed1 avg1) (\<lambda>ratio1.
     let r9 = r8 @ [(Half1_ratio, VNum ratio1)]
     in
     step r9 (second_half lap) (\<lambda>second_half.
     let distance2 = series_max (map Distance second_half) - series_min (map Distance second_half);
         r10 = r9 @ [(Half2_distance, VInt distance2)]
     in
     step r10 (speed_value a (real_of_int distance2) (real_of_int total_time / 2)) (\<lambda>speed2.
     let r11 = r10 @ [(Half2_speed, VNum speed2)]
     in
     step r11 (pace_of_speed speed2) (\<lambda>pace2.
     let avg2 = series_mean (map Bpm second_half);
         r12 = r11 @ [(Half2_pace, VStr pace2), (Half2_avg_BPM, VNum avg2)]
     in
     step r12 (py_div speed2 avg2) (\<lambda>ratio2.
     let r13 = r12 @ [(Half2_ratio, VNum ratio2)]
     in
     step r13 (py_div (ratio2 - ratio1) ratio1) (\<lambda>drift.
     let r14 = r13 @ [(Drift, VNum drift)]
     in
     step r14 (py_div (avg2 - avg1) avg1) (\<lambda>bpm_drift.
     (r14 @ [(BPM_only_drift, VNum bpm_drift)], None)))))))))))))))))"

text \<open>
  The loop of \<^verbatim>\<open>parse_laps\<close> from lap number \<open>i\<close> on. A \<^verbatim>\<open>ZeroDivisionError\<close> is caught:
  two lines go to the error stream and the row, as far as it was filled, is appended
  like any other. Every other exception leaves the function.
\<close>

fun parse_laps_from :: "args \<Rightarrow> nat \<Rightarrow> lap_data list \<Rightarrow> error + row list \<times> diagnostic list" where
  "parse_laps_from a i [] = Inr ([], [])"
| "parse_laps_from a i (lap # laps) =
     (case lap_body a lap of
        (lap_row, None) \<Rightarrow>
          try_bind (parse_laps_from a (Suc i) laps) (\<lambda>(all_laps_data, out).
            Inr (lap_row # all_laps_data, out))
      | (lap_row, Some e) \<Rightarrow>
          if e = ZeroDivisionError
          then try_bind (parse_laps_from a (Suc i) laps) (\<lambda>(all_laps_data, out).
                 Inr (lap_row # all_laps_data, [ExceptionText e, SkippingLap i] @ out))
          else Inl e)"

definition parse_laps :: "args \<Rightarrow> lap_data list \<Rightarrow> error + row list \<times> diagnostic list" where
  "parse_laps a laps = parse_laps_from a 0 laps"

subsection \<open>The report\<close>

text \<open>
  The data frame of the report is the list of the rows; its columns are the keys of
  the rows in the order of their first appearance, and a key that a row lacks is an
  empty cell. \<^verbatim>\<open>to_csv\<close> is modelled up to the table it writes: a list of lines, each a
  list of cells, the first cell being the index. It raises \<^verbatim>\<open>KeyError\<close> when asked for
  a column that the frame does not have.
\<close>

datatype cell = Header string | Index nat | Value val | Blank

definition df_columns :: "row list \<Rightarrow> column list" where
  "df_columns df = rev (remdups (rev (concat (map (map fst) df))))"

definition to_csv ::
  "column list option \<Rightarrow> bool \<Rightarrow> string option \<Rightarrow> row list \<Rightarrow> error + cell list list" where
  "to_csv cols header index_label df =
     (let cs = (case cols of None \<Rightarrow> df_columns df | Some cs \<Rightarrow> cs)
      in if \<not> set cs \<subseteq> set (df_columns df) then Inl KeyError
         else
           let lines = map (\<lambda>(i, r). Index i # map (\<lambda>c. case map_of r c of
                                                          None \<Rightarrow> Blank
                                                        | Some v \<Rightarrow> Value v) cs)
                           (enumerate 0 df)
           in Inr (if header
                   then (Header (case index_label of None \<Rightarrow> [] | Some l \<Rightarrow> l)
                         # map (\<lambda>c. Header (column_name c)) cs) # lines
                   else lines))"

definition columns_to_write :: "args \<Rightarrow> column list option" where
  "columns_to_write a =
     (if \<not> details a
      then Some [Filename_col, Beginning_time, End_time, Duration, Drift, Avg_BPM,
                 Half1_avg_BPM, Half2_avg_BPM, BPM_only_drift]
      else None)"

definition csv_output :: "args \<Rightarrow> row list \<Rightarrow> error + cell list list" where
  "csv_output a laps_array =
     (let index_name = ''lap''
      in if \<not> columns a
         then to_csv (columns_to_write a) False None laps_array
         else to_csv (columns_to_write a) True (Some index_name) laps_array)"

subsection \<open>The main program\<close>

definition tcxaet_main ::
  "(string \<Rightarrow> string) \<Rightarrow> (string \<Rightarrow> xml_lap list option) \<Rightarrow> args \<Rightarrow> string list
   \<Rightarrow> error + cell list list \<times> diagnostic list" where
  "tcxaet_main basename fs a file_list =
     try_bind (read_tcx_files basename fs file_list) (\<lambda>all_laps.
     try_bind (parse_tcx_lap all_laps) (\<lambda>(laps, out1).
     try_bind (parse_laps a laps) (\<lambda>(parsed_array, out2).
     try_bind (csv_output a parsed_array) (\<lambda>csv. Inr (csv, out1 @ out2)))))"

subsection \<open>Example inputs\<close>

text \<open>
  A time zone whose offset changes at instant 15 (a daylight-saving transition), a lap
  of four trackpoints ten seconds and ten metres apart with a declared total time of
  30 s, the same lap with a declared total time of zero, and three files.
\<close>

definition example_zone :: timezone where
  "example_zone t =
     (if t < 15 then \<lparr>utcoffset = - 18000, tzname = ''EST''\<rparr>
      else \<lparr>utcoffset = - 14400, tzname = ''EDT''\<rparr>)"

definition example_args :: args where
  "example_args =
     \<lparr>details = False, columns = True, local_time = True, treadmill = None,
      timezone_at = (\<lambda>coords. Some example_zone)\<rparr>"

definition example_xml_lap :: xml_lap where
  "example_xml_lap =
     \<lparr>xp_LongitudeDegrees = [- 74, - 74, - 74, - 74],
      xp_LatitudeDegrees = [407 / 10, 407 / 10, 407 / 10, 407 / 10],
      xp_TotalTimeSeconds = [30],
      xp_DistanceMeters = [30, 0, 10, 20, 30],
      xp_HeartRateBpm_Value = [100, 110, 120, 130],
      xp_Trackpoint_DistanceMeters = [0, 10, 20, 30],
      xp_Trackpoint_Time = [0, 10, 20, 30]\<rparr>"

definition example_lap :: lap_data where
  "example_lap =
     \<lparr>Lap_coords = Some (- 74, 407 / 10), Filename = ''b.tcx'', TotalTimeSeconds = 30,
      DistanceMeters = [0, 10, 20, 30],
      Trackpoints_series =
        [\<lparr>tp_time = 0, Bpm = 100, Distance = 0\<rparr>,
         \<lparr>tp_time = 10, Bpm = 110, Distance = 10\<rparr>,
         \<lparr>tp_time = 20, Bpm = 120, Distance = 20\<rparr>,
         \<lparr>tp_time = 30, Bpm = 130, Distance = 30\<rparr>]\<rparr>"



text \<open>A lap with one heart rate, two distances and three times.\<close>

definition ragged_xml_lap :: xml_lap where
  "ragged_xml_lap =
     example_xml_lap\<lparr>xp_HeartRateBpm_Value := [100],
                      xp_Trackpoint_DistanceMeters := [0, 10],
                      xp_Trackpoint_Time := [0, 10, 20]\<rparr>"

definition example_fs :: "string \<Rightarrow> xml_lap list option" where
  "example_fs filename =
     (if filename = ''b.tcx'' then Some [example_xml_lap, example_xml_lap\<lparr>xp_TotalTimeSeconds := [0]\<rparr>]
      else if filename = ''a.tcx'' then Some [example_xml_lap]
      else if filename = ''ragged.tcx'' then Some [ragged_xml_lap]
      else None)"

text \<open>A lap with a trackpoint exactly at its half time.\<close>

definition boundary_lap :: lap_data where
  "boundary_lap =
     \<lparr>Lap_coords = None, Filename = ''a.tcx'', TotalTimeSeconds = 20,
      DistanceMeters = [0, 10, 20],
      Trackpoints_series =
        [\<lparr>tp_time = 0, Bpm = 100, Distance = 0\<rparr>,
         \<lparr>tp_time = 10, Bpm = 110, Distance = 10\<rparr>,
         \<lparr>tp_time = 20, Bpm = 120, Distance = 20\<rparr>]\<rparr>"

text \<open>The report of the files \<^verbatim>\<open>b.tcx\<close> and \<^verbatim>\<open>a.tcx\<close>, in summary mode with the header.\<close>

definition example_report :: "cell list list" where
  "example_report =
     [[Header ''lap'', Header ''Filename'', Header ''Beginning time'', Header ''End time'',
       Header ''Duration'', Header ''1st/2nd half drift'', Header ''Avg. BPM'',
       Header ''1st half avg. BPM'', Header ''2nd half avg. BPM'',
       Header ''1st/2nd hald BPM-only drift''],
      [Index 0, Value (VStr ''b.tcx''),
       Value (VTime (Aware (- 18000) \<lparr>utcoffset = - 18000, tzname = ''EST''\<rparr>)),
       Value (VTime (Aware (- 14370) \<lparr>utcoffset = - 14400, tzname = ''EDT''\<rparr>)),
       Value (VDur 30), Value (VNum (- (4 / 25))), Value (VNum 115), Value (VNum 105),
       Value (VNum 125), Value (VNum (4 / 21))],
      [Index 1, Value (VStr ''b.tcx''),
       Value (VTime (Aware (- 18000) \<lparr>utcoffset = - 18000, tzname = ''EST''\<rparr>)),
       Value (VTime (Aware (- 14370) \<lparr>utcoffset = - 14400, tzname = ''EDT''\<rparr>)),
       Value (VDur 30), Blank, Value (VNum 115), Blank, Blank, Blank],
      [Index 2, Value (VStr ''a.tcx''),
       Value (VTime (Aware (- 18000) \<lparr>utcoffset = - 18000, tzname = ''EST''\<rparr>)),
       Value (VTime (Aware (- 14370) \<lparr>utcoffset = - 14400, tzname = ''EDT''\<rparr>)),
       Value (VDur 30), Value (VNum (- (4 / 25))), Value (VNum 115), Value (VNum 105),
       Value (VNum 125), Value (VNum (4 / 21))]]"

subsection \<open>Notions used in the statements\<close>

text \<open>The laps of a file in document order; none for a file that cannot be read.\<close>

definition file_laps :: "(string \<Rightarrow> xml_lap list option) \<Rightarrow> string \<Rightarrow> xml_lap list" where
  "file_laps fs filename = (case fs filename of None \<Rightarrow> [] | Some laps \<Rightarrow> laps)"

text \<open>
  The summary columns in the order in which the specification lists them: filename,
  begin time, end time, duration, the heart-rate averages (whole lap, first half, second
  half), and both drift ratios.
\<close>

definition documented_summary_columns :: "column list" where
  "documented_summary_columns =
     [Filename_col, Beginning_time, End_time, Duration,
      Avg_BPM, Half1_avg_BPM, Half2_avg_BPM, Drift, BPM_only_drift]"

section \<open>Properties\<close>

subsection \<open>Pace strings\<close>

text \<open>
  Claim C9: for every non-negative speed the pace is the inverse of the speed in minutes
  per mile, formatted as \<^verbatim>\<open>MM:SS\<close> with two-digit seconds from 00 to 59, and speed zero
  gives \<^verbatim>\<open>00:00\<close>. The code rounds the seconds after it has split them off and does not
  carry: 5000 m in 1677 s is a pace of 8 min 59.772636 s, and the string is \<^verbatim>\<open>08:60\<close>.
\<close>

theorem pace_seconds_sixty:
  "pace_of_speed (5000 / 1677) = Inr ''08:60''"
  by code_simp

text \<open>Speed zero does give \<^verbatim>\<open>00:00\<close>, and one metre per second a pace of 26 min 49 s.\<close>

lemma pace_zero_speed:
  "pace_of_speed 0 = Inr ''00:00''"
  by (simp add: pace_of_speed_def meter_sec_2_min_miles_def mil_min_val_to_mil_min_string_def)

lemma pace_unit_speed:
  "pace_of_speed 1 = Inr ''26:49''"
  by code_simp

subsection \<open>The trackpoint count\<close>

text \<open>
  Claim C8: the \<^verbatim>\<open># Trackpoints\<close> field of a lap's row is the number of trackpoints of
  the lap. The code stores \<^verbatim>\<open>DataFrame.size\<close>, the number of cells of the two-column
  frame: the example lap has four trackpoints and its row says eight.
\<close>

theorem trackpoints_field_doubled:
  "length (Trackpoints_series example_lap) = 4
   \<and> snd (lap_body example_args example_lap) = None
   \<and> map_of (fst (lap_body example_args example_lap)) N_Trackpoints = Some (VInt 8)"
  by code_simp

text \<open>In general the field, where a row has it, is twice the number of trackpoints.\<close>

lemma trackpoints_field:
  "lap_body a lap = (lap_row, st) \<Longrightarrow> map_of lap_row N_Trackpoints = Some v \<Longrightarrow>
   v = VInt (2 * int (length (Trackpoints_series lap)))"
  by (auto simp: lap_body_def step_def Let_def frame_size_def split: sum.splits prod.splits)

subsection \<open>The temporal split\<close>

lemma takeWhile_sorted_filter:
  "sorted (map f xs) \<Longrightarrow> takeWhile (\<lambda>r. f r \<le> (h::real)) xs = filter (\<lambda>r. f r \<le> h) xs"
proof (induction xs)
  case Nil
  then show ?case by simp
next
  case (Cons x xs)
  show ?case
  proof (cases "f x \<le> h")
    case True
    with Cons show ?thesis by simp
  next
    case False
    with Cons.prems have "\<forall>y\<in>set xs. \<not> f y \<le> h" by fastforce
    then have "filter (\<lambda>r. f r \<le> h) xs = []" by (simp add: filter_empty_conv)
    with False show ?thesis by simp
  qed
qed

lemma dropWhile_sorted_filter:
  "sorted (map f xs) \<Longrightarrow> dropWhile (\<lambda>r. f r < (h::real)) xs = filter (\<lambda>r. h \<le> f r) xs"
proof (induction xs)
  case Nil
  then show ?case by simp
next
  case (Cons x xs)
  show ?case
  proof (cases "f x < h")
    case True
    with Cons show ?thesis by simp
  next
    case False
    with Cons.prems have "\<forall>y\<in>set xs. h \<le> f y" by fastforce
    then have "filter (\<lambda>r. h \<le> f r) xs = xs" by (simp add: filter_id_conv)
    with False show ?thesis by simp
  qed
qed

lemma takeWhile_le_index_max:
  "takeWhile (\<lambda>r. tp_time r \<le> index_max series) (filter P series) = filter P series"
proof -
  have "\<forall>r\<in>set (filter P series). tp_time r \<le> index_max series"
    by (simp add: index_max_def)
  then show ?thesis by (simp add: takeWhile_eq_all_conv)
qed

lemma count_halves:
  "length xs \<le> length (filter (\<lambda>r. f r \<le> (h::real)) xs) + length (filter (\<lambda>r. h \<le> f r) xs)"
  by (induction xs) auto

lemma halftime_between:
  assumes "series \<noteq> []"
  shows "index_min series \<le> index_min series + (index_max series - index_min series) / 2"
    and "index_min series + (index_max series - index_min series) / 2 \<le> index_max series"
proof -
  have "index_min series \<le> index_max series"
    using assms by (simp add: index_min_def index_max_def)
  then show "index_min series \<le> index_min series + (index_max series - index_min series) / 2"
    and "index_min series + (index_max series - index_min series) / 2 \<le> index_max series"
    by (simp_all add: field_simps)
qed

lemma first_half_sorted:
  "sorted (map tp_time (Trackpoints_series lap)) \<Longrightarrow>
   first_half lap = Inr (filter (\<lambda>r. tp_time r \<le> lap_halftime_value lap) (Trackpoints_series lap))"
  by (simp add: first_half_def truncate_after_def takeWhile_sorted_filter)

lemma second_half_sorted:
  "sorted (map tp_time (Trackpoints_series lap)) \<Longrightarrow>
   second_half lap = Inr (filter (\<lambda>r. lap_halftime_value lap \<le> tp_time r) (Trackpoints_series lap))"
  by (simp add: second_half_def loc_slice_def dropWhile_sorted_filter takeWhile_le_index_max)

text \<open>Both halves of a lap with trackpoints hold a trackpoint, so their means are defined.\<close>

lemma halves_nonempty:
  assumes "sorted (map tp_time (Trackpoints_series lap))" and "Trackpoints_series lap \<noteq> []"
  shows "\<exists>fh sh. first_half lap = Inr fh \<and> fh \<noteq> [] \<and> second_half lap = Inr sh \<and> sh \<noteq> []"
proof -
  let ?s = "Trackpoints_series lap" and ?h = "lap_halftime_value lap"
  have "index_min ?s \<in> set (map tp_time ?s)" and "index_max ?s \<in> set (map tp_time ?s)"
    unfolding index_min_def index_max_def using assms(2)
    by (simp_all only: Min_in Max_in List.finite_set set_empty map_is_Nil_conv not_False_eq_True)
  then obtain r0 r1 where r0: "r0 \<in> set ?s" "tp_time r0 = index_min ?s"
    and r1: "r1 \<in> set ?s" "tp_time r1 = index_max ?s"
    by auto
  from halftime_between [OF assms(2)] have "tp_time r0 \<le> ?h" and "?h \<le> tp_time r1"
    using r0(2) r1(2) by (simp_all add: lap_halftime_value_def)
  with r0(1) r1(1) have "filter (\<lambda>r. tp_time r \<le> ?h) ?s \<noteq> []"
    and "filter (\<lambda>r. ?h \<le> tp_time r) ?s \<noteq> []"
    by (auto simp: filter_empty_conv)
  with first_half_sorted [OF assms(1)] second_half_sorted [OF assms(1)] show ?thesis by blast
qed

text \<open>
  Claim C3: for a lap whose trackpoints are in time order and not empty, the half time
  is \<open>min + (max - min) / 2\<close> of the timestamps, the first half is exactly the
  trackpoints with timestamp \<open>\<le>\<close> the half time, the second half exactly those with
  timestamp \<open>\<ge>\<close> the half time, and the two halves together count at least as many
  trackpoints as the lap.
\<close>

theorem temporal_split:
  assumes "sorted (map tp_time (Trackpoints_series lap))" and "Trackpoints_series lap \<noteq> []"
  shows "lap_halftime_value lap =
           Min (set (map tp_time (Trackpoints_series lap)))
           + (Max (set (map tp_time (Trackpoints_series lap)))
              - Min (set (map tp_time (Trackpoints_series lap)))) / 2
         \<and> first_half lap
             = Inr (filter (\<lambda>r. tp_time r \<le> lap_halftime_value lap) (Trackpoints_series lap))
         \<and> second_half lap
             = Inr (filter (\<lambda>r. lap_halftime_value lap \<le> tp_time r) (Trackpoints_series lap))
         \<and> (\<forall>fh sh. first_half lap = Inr fh \<and> second_half lap = Inr sh \<longrightarrow>
                length (Trackpoints_series lap) \<le> length fh + length sh)"
proof -
  let ?s = "Trackpoints_series lap" and ?h = "lap_halftime_value lap"
  have halftime: "?h = Min (set (map tp_time ?s))
      + (Max (set (map tp_time ?s)) - Min (set (map tp_time ?s))) / 2"
    unfolding lap_halftime_value_def index_min_def index_max_def ..
  have first: "first_half lap = Inr (filter (\<lambda>r. tp_time r \<le> ?h) ?s)"
    using assms(1) by (rule first_half_sorted)
  have second: "second_half lap = Inr (filter (\<lambda>r. ?h \<le> tp_time r) ?s)"
    using assms(1) by (rule second_half_sorted)
  have count: "\<forall>fh sh. first_half lap = Inr fh \<and> second_half lap = Inr sh \<longrightarrow>
      length ?s \<le> length fh + length sh"
    using count_halves [of ?s tp_time ?h] by (simp add: first second)
  from halftime first second count show ?thesis by blast
qed

theorem temporal_split_witness:
  "sorted (map tp_time (Trackpoints_series boundary_lap))
   \<and> Trackpoints_series boundary_lap \<noteq> []
   \<and> lap_halftime_value boundary_lap = 10
   \<and> first_half boundary_lap = Inr (take 2 (Trackpoints_series boundary_lap))
   \<and> second_half boundary_lap = Inr (drop 1 (Trackpoints_series boundary_lap))
   \<and> length (Trackpoints_series boundary_lap) \<le> 2 + 2"
proof -
  have s: "sorted (map tp_time (Trackpoints_series boundary_lap))"
    by (simp add: boundary_lap_def)
  have n: "Trackpoints_series boundary_lap \<noteq> []"
    by (simp add: boundary_lap_def)
  have h: "lap_halftime_value boundary_lap = 10"
    by (simp add: lap_halftime_value_def index_min_def index_max_def boundary_lap_def)
  have f: "filter (\<lambda>r. tp_time r \<le> 10) (Trackpoints_series boundary_lap)
           = take 2 (Trackpoints_series boundary_lap)"
    by (simp add: boundary_lap_def)
  have g: "filter (\<lambda>r. 10 \<le> tp_time r) (Trackpoints_series boundary_lap)
           = drop 1 (Trackpoints_series boundary_lap)"
    by (simp add: boundary_lap_def)
  from temporal_split [OF s n] have "first_half boundary_lap = Inr (take 2 (Trackpoints_series boundary_lap))
      \<and> second_half boundary_lap = Inr (drop 1 (Trackpoints_series boundary_lap))"
    unfolding h f g by blast
  with s n h show ?thesis by (simp add: boundary_lap_def)
qed

subsection \<open>Local time\<close>

lemma time_minus_astimezone:
  "time_minus (astimezone (Aware t1 pytz_utc) zone) (astimezone (Aware t0 pytz_utc) zone)
   = Inr (t1 - t0)"
  by (simp add: astimezone_def pytz_utc_def Let_def)

text \<open>
  Claim C5: for a lap with coordinates and local-time conversion enabled, whatever time
  zone the lookup returns, the duration taken after converting the first and the last
  instant to local time is the duration of the UTC instants, which is also what the
  program computes with the conversion disabled.
\<close>

theorem local_time_duration:
  assumes "Trackpoints_series lap \<noteq> []"
    and "Lap_coords lap = Some coords"
    and "local_time a"
    and "timezone_at a coords = Some zone"
  shows "get_lap_times_and_duration a lap
           = Inr (astimezone (Aware (tp_time (hd (Trackpoints_series lap))) pytz_utc) zone,
                  astimezone (Aware (tp_time (last (Trackpoints_series lap))) pytz_utc) zone,
                  tp_time (last (Trackpoints_series lap)) - tp_time (hd (Trackpoints_series lap)))
         \<and> get_lap_times_and_duration (a\<lparr>local_time := False\<rparr>) lap
           = Inr (Datetime64 (tp_time (hd (Trackpoints_series lap))),
                  Datetime64 (tp_time (last (Trackpoints_series lap))),
                  tp_time (last (Trackpoints_series lap)) - tp_time (hd (Trackpoints_series lap)))
         \<and> time_minus (astimezone (Aware (tp_time (last (Trackpoints_series lap))) pytz_utc) zone)
                       (astimezone (Aware (tp_time (hd (Trackpoints_series lap))) pytz_utc) zone)
           = time_minus (Datetime64 (tp_time (last (Trackpoints_series lap))))
                        (Datetime64 (tp_time (hd (Trackpoints_series lap))))"
proof -
  obtain first others where s: "Trackpoints_series lap = first # others"
    using assms(1) by (cases "Trackpoints_series lap") auto
  have local: "get_lap_times_and_duration a lap
           = Inr (astimezone (Aware (tp_time (hd (Trackpoints_series lap))) pytz_utc) zone,
                  astimezone (Aware (tp_time (last (Trackpoints_series lap))) pytz_utc) zone,
                  tp_time (last (Trackpoints_series lap)) - tp_time (hd (Trackpoints_series lap)))"
    using assms(2-4)
    by (simp add: get_lap_times_and_duration_def s try_bind_def UTC_datetime2local_def
        time_minus_astimezone Let_def del: time_minus.simps)
  have utc: "get_lap_times_and_duration (a\<lparr>local_time := False\<rparr>) lap
           = Inr (Datetime64 (tp_time (hd (Trackpoints_series lap))),
                  Datetime64 (tp_time (last (Trackpoints_series lap))),
                  tp_time (last (Trackpoints_series lap)) - tp_time (hd (Trackpoints_series lap)))"
    using assms(2)
    by (simp add: get_lap_times_and_duration_def s try_bind_def Let_def)
  show ?thesis
    using local utc by (simp add: time_minus_astimezone del: time_minus.simps) simp
qed

theorem local_time_duration_witness:
  "get_lap_times_and_duration example_args example_lap
     = Inr (Aware (- 18000) \<lparr>utcoffset = - 18000, tzname = ''EST''\<rparr>,
            Aware (- 14370) \<lparr>utcoffset = - 14400, tzname = ''EDT''\<rparr>, 30)
   \<and> get_lap_times_and_duration (example_args\<lparr>local_time := False\<rparr>) example_lap
     = Inr (Datetime64 0, Datetime64 30, 30)"
proof -
  have n: "Trackpoints_series example_lap \<noteq> []"
    and c: "Lap_coords example_lap = Some (- 74, 407 / 10)"
    by (simp_all add: example_lap_def)
  have l: "local_time example_args"
    and z: "timezone_at example_args (- 74, 407 / 10) = Some example_zone"
    by (simp_all add: example_args_def)
  from local_time_duration [OF n c l z] show ?thesis
    by (simp add: example_lap_def astimezone_def pytz_utc_def example_zone_def Let_def)
qed

subsection \<open>Malformed laps\<close>

lemma parse_tcx_lap_append:
  "parse_tcx_lap (xs @ ys) =
     try_bind (parse_tcx_lap xs) (\<lambda>(laps, out).
       try_bind (parse_tcx_lap ys) (\<lambda>(laps', out'). Inr (laps @ laps', out @ out')))"
  by (induction xs rule: parse_tcx_lap.induct)
     (auto simp: try_bind_def split: sum.splits prod.splits)

lemma parse_one_lap_malformed:
  assumes "xp_TotalTimeSeconds lap \<noteq> []"
    and "length (xp_HeartRateBpm_Value lap) \<noteq> length (xp_Trackpoint_DistanceMeters lap)"
    and "length (xp_Trackpoint_DistanceMeters lap) \<noteq> length (xp_Trackpoint_Time lap)"
  shows "parse_one_lap filename lap = Inl MalformedLapError"
  using assms by (simp add: parse_one_lap_def Let_def split: list.splits)

text \<open>
  Claim C1, as the code has it: a lap that has a total time and whose heart-rate length
  differs from its distance length, and its distance length from its time length, makes
  \<^verbatim>\<open>parse_tcx_lap\<close> raise the exception for malformed laps; nothing handles it, so the
  run ends there with that exception and prints no report, for this lap or any other.
  (The claim has the lap left out of the report and the run going on.)
\<close>

theorem malformed_lap_aborts_run:
  assumes "read_tcx_files basename fs file_list = Inr (before @ (filename, lap) # after)"
    and "parse_tcx_lap before = Inr (laps, out)"
    and "xp_TotalTimeSeconds lap \<noteq> []"
    and "length (xp_HeartRateBpm_Value lap) \<noteq> length (xp_Trackpoint_DistanceMeters lap)"
    and "length (xp_Trackpoint_DistanceMeters lap) \<noteq> length (xp_Trackpoint_Time lap)"
  shows "parse_one_lap filename lap = Inl MalformedLapError
         \<and> parse_tcx_lap (before @ (filename, lap) # after) = Inl MalformedLapError
         \<and> tcxaet_main basename fs a file_list = Inl MalformedLapError"
proof -
  have one: "parse_one_lap filename lap = Inl MalformedLapError"
    using assms(3-5) by (rule parse_one_lap_malformed)
  have all: "parse_tcx_lap (before @ (filename, lap) # after) = Inl MalformedLapError"
    by (simp add: parse_tcx_lap_append assms(2) one try_bind_def)
  have "tcxaet_main basename fs a file_list = Inl MalformedLapError"
    by (simp add: tcxaet_main_def assms(1) all try_bind_def)
  with one all show ?thesis by blast
qed

theorem malformed_lap_aborts_run_witness:
  "tcxaet_main (\<lambda>name. name) example_fs example_args [''a.tcx'', ''ragged.tcx'', ''b.tcx'']
     = Inl MalformedLapError"
proof -
  have r: "read_tcx_files (\<lambda>name. name) example_fs [''a.tcx'', ''ragged.tcx'', ''b.tcx'']
      = Inr ([(''a.tcx'', example_xml_lap)] @ (''ragged.tcx'', ragged_xml_lap)
             # [(''b.tcx'', example_xml_lap),
                (''b.tcx'', example_xml_lap\<lparr>xp_TotalTimeSeconds := [0]\<rparr>)])"
    by (simp add: example_fs_def)
  have p: "parse_tcx_lap [(''a.tcx'', example_xml_lap)]
      = Inr ([example_lap\<lparr>Filename := ''a.tcx''\<rparr>], [])"
    by (simp add: parse_one_lap_def example_xml_lap_def example_lap_def DataFrame_def
        py_int_def Let_def)
  have t: "xp_TotalTimeSeconds ragged_xml_lap \<noteq> []"
    and b: "length (xp_HeartRateBpm_Value ragged_xml_lap)
            \<noteq> length (xp_Trackpoint_DistanceMeters ragged_xml_lap)"
    and d: "length (xp_Trackpoint_DistanceMeters ragged_xml_lap)
            \<noteq> length (xp_Trackpoint_Time ragged_xml_lap)"
    by (simp_all add: ragged_xml_lap_def example_xml_lap_def)
  from malformed_lap_aborts_run [OF r p t b d] show ?thesis by simp
qed

text \<open>
  The claim C1 fails where it says that the run goes on: the file \<^verbatim>\<open>ragged.tcx\<close> holds
  a lap with one heart rate, two distances and three times, and the run over it and the
  well-formed file \<^verbatim>\<open>a.tcx\<close> ends with the exception instead of a report of \<^verbatim>\<open>a.tcx\<close>.
\<close>

theorem malformed_lap_counterexample:
  "tcxaet_main (\<lambda>name. name) example_fs example_args [''ragged.tcx'', ''a.tcx'']
   = Inl MalformedLapError"
  by code_simp

subsection \<open>The order of the report\<close>

lemma read_tcx_files_order:
  "read_tcx_files basename fs file_list = Inr all_laps \<Longrightarrow>
   all_laps = concat (map (\<lambda>f. map (Pair (basename f)) (file_laps fs f)) file_list)"
  by (induction file_list arbitrary: all_laps)
     (auto simp: file_laps_def split: option.splits sum.splits)

lemma parse_one_lap_filename:
  "parse_one_lap filename lap = Inr (lap_data, out) \<Longrightarrow> Filename lap_data = filename"
  by (auto simp: parse_one_lap_def Let_def split: list.splits if_splits sum.splits)

lemma parse_tcx_lap_order:
  "parse_tcx_lap all_laps = Inr (laps, out) \<Longrightarrow>
   list_all2 (\<lambda>(filename, lap) lap_data.
       (\<exists>out'. parse_one_lap filename lap = Inr (lap_data, out')) \<and> Filename lap_data = filename)
     all_laps laps"
  by (induction all_laps arbitrary: laps out rule: parse_tcx_lap.induct)
     (auto split: sum.splits prod.splits dest: parse_one_lap_filename)

lemma parse_laps_from_order:
  "parse_laps_from a i laps = Inr (rows, out) \<Longrightarrow> rows = map (\<lambda>lap. fst (lap_body a lap)) laps"
  by (induction laps arbitrary: i rows out)
     (auto simp: try_bind_def split: prod.splits option.splits sum.splits if_splits)

lemma row_filename:
  "map_of (fst (lap_body a lap)) Filename_col = Some (VStr (Filename lap))"
  by (auto simp: lap_body_def step_def Let_def split: sum.splits prod.splits)

lemma to_csv_lines:
  "to_csv cols header index_label df = Inr lines \<Longrightarrow>
   drop (if header then 1 else 0) lines
     = map (\<lambda>(i, r). Index i # map (\<lambda>c. case map_of r c of None \<Rightarrow> Blank | Some v \<Rightarrow> Value v)
                                   (case cols of None \<Rightarrow> df_columns df | Some cs \<Rightarrow> cs))
           (enumerate 0 df)"
  by (auto simp: to_csv_def Let_def split: if_splits)

lemma map_hd_enumerate:
  "map hd (map (\<lambda>(i, r). Index i # f r) (enumerate n df)) = map Index [n..<n + length df]"
  by (induction df arbitrary: n) (simp_all add: upt_rec)

lemma csv_output_index:
  assumes "csv_output a rows = Inr lines"
  shows "map hd (drop (if columns a then 1 else 0) lines) = map Index [0..<length rows]"
proof (cases "columns a")
  case True
  with assms have "to_csv (columns_to_write a) True (Some ''lap'') rows = Inr lines"
    by (simp add: csv_output_def)
  from to_csv_lines [OF this] True show ?thesis
    using map_hd_enumerate [of _ 0 rows] by simp
next
  case False
  with assms have "to_csv (columns_to_write a) False None rows = Inr lines"
    by (simp add: csv_output_def)
  from to_csv_lines [OF this] False show ?thesis
    using map_hd_enumerate [of _ 0 rows] by simp
qed

lemma example_main:
  "tcxaet_main (\<lambda>name. name) example_fs example_args [''b.tcx'', ''a.tcx'']
   = Inr (example_report, [ExceptionText ZeroDivisionError, SkippingLap 1])"
  by code_simp

text \<open>
  Claim C7: the rows of the report are in the order in which the laps are met: the files
  in the order of the argument list, whatever their names, and within a file the laps in
  document order. Row \<open>i\<close> of the report is the row of the \<open>i\<close>-th lap of that sequence,
  carries the name of its file, and is written as line \<open>i\<close>.
\<close>

theorem report_encounter_order:
  assumes "tcxaet_main basename fs a file_list = Inr (lines, out)"
  shows "\<exists>all_laps laps rows.
           all_laps = concat (map (\<lambda>f. map (Pair (basename f)) (file_laps fs f)) file_list)
         \<and> list_all2 (\<lambda>(filename, lap) lap_data.
               (\<exists>out'. parse_one_lap filename lap = Inr (lap_data, out'))
               \<and> Filename lap_data = filename)
             all_laps laps
         \<and> rows = map (\<lambda>lap. fst (lap_body a lap)) laps
         \<and> map (\<lambda>r. map_of r Filename_col) rows
             = map (\<lambda>(filename, lap). Some (VStr filename)) all_laps
         \<and> csv_output a rows = Inr lines
         \<and> map hd (drop (if columns a then 1 else 0) lines) = map Index [0..<length all_laps]"
proof -
  from assms obtain all_laps laps out1 rows out2
    where r: "read_tcx_files basename fs file_list = Inr all_laps"
      and p: "parse_tcx_lap all_laps = Inr (laps, out1)"
      and l: "parse_laps a laps = Inr (rows, out2)"
      and c: "csv_output a rows = Inr lines"
    by (auto simp: tcxaet_main_def try_bind_def split: sum.splits prod.splits)
  note order = read_tcx_files_order [OF r]
  note parsed = parse_tcx_lap_order [OF p]
  have rows: "rows = map (\<lambda>lap. fst (lap_body a lap)) laps"
    using l unfolding parse_laps_def by (rule parse_laps_from_order)
  have len: "length rows = length all_laps"
    using rows list_all2_lengthD [OF parsed] by simp
  have "map Filename laps = map fst all_laps"
    using parsed by (induction all_laps laps rule: list_all2_induct) auto
  then have names: "map (\<lambda>r. map_of r Filename_col) rows
      = map (\<lambda>(filename, lap). Some (VStr filename)) all_laps"
    unfolding rows by (induction laps arbitrary: all_laps) (auto simp: row_filename)
  have index: "map hd (drop (if columns a then 1 else 0) lines) = map Index [0..<length all_laps]"
    using csv_output_index [OF c] len by simp
  from order parsed rows names c index show ?thesis by blast
qed

theorem report_encounter_order_witness:
  "\<exists>rows. csv_output example_args rows = Inr example_report
     \<and> map (\<lambda>r. map_of r Filename_col) rows
         = [Some (VStr ''b.tcx''), Some (VStr ''b.tcx''), Some (VStr ''a.tcx'')]
     \<and> map hd (drop 1 example_report) = [Index 0, Index 1, Index 2]"
proof -
  have laps: "concat (map (\<lambda>f. map (Pair f) (file_laps example_fs f)) [''b.tcx'', ''a.tcx''])
      = [(''b.tcx'', example_xml_lap),
         (''b.tcx'', example_xml_lap\<lparr>xp_TotalTimeSeconds := [0]\<rparr>),
         (''a.tcx'', example_xml_lap)]"
    by (simp add: file_laps_def example_fs_def)
  have cols: "columns example_args"
    by (simp add: example_args_def)
  have upt: "[0..<3] = [0, 1, 2::nat]"
    by (simp add: upt_rec)
  from report_encounter_order [OF example_main] show ?thesis
    unfolding laps using cols by (auto simp: upt)
qed

subsection \<open>The columns of the summary\<close>

text \<open>
  Claim C6, as the code has it: in summary mode the report has, after the index column,
  exactly nine columns in the order filename, begin time, end time, duration, the
  speed-to-heart-rate drift, the heart-rate averages of the whole lap, the first half and
  the second half, and the heart-rate-only drift; the header line, labelled \<^verbatim>\<open>lap\<close> for
  the index, is written if and only if the columns flag is set. (The claim has both drift
  ratios after the averages.)
\<close>

theorem summary_report_columns:
  assumes "\<not> details a" and "csv_output a df = Inr lines"
  shows "(let data = map (\<lambda>(i, r). Index i
                           # map (\<lambda>c. case map_of r c of None \<Rightarrow> Blank | Some v \<Rightarrow> Value v)
                               [Filename_col, Beginning_time, End_time, Duration, Drift,
                                Avg_BPM, Half1_avg_BPM, Half2_avg_BPM, BPM_only_drift])
                     (enumerate 0 df)
          in (columns a \<longrightarrow>
                lines = [Header ''lap'', Header ''Filename'', Header ''Beginning time'',
                         Header ''End time'', Header ''Duration'', Header ''1st/2nd half drift'',
                         Header ''Avg. BPM'', Header ''1st half avg. BPM'',
                         Header ''2nd half avg. BPM'', Header ''1st/2nd hald BPM-only drift'']
                        # data)
           \<and> (\<not> columns a \<longrightarrow> lines = data)
           \<and> length data = length df
           \<and> (\<forall>line \<in> set lines. length line = 10))"
  using assms
  by (auto simp: csv_output_def columns_to_write_def to_csv_def Let_def split: if_splits)

theorem summary_report_columns_witness:
  "\<not> details example_args \<and> columns example_args
   \<and> csv_output example_args [fst (lap_body example_args example_lap)]
       = Inr [[Header ''lap'', Header ''Filename'', Header ''Beginning time'',
               Header ''End time'', Header ''Duration'', Header ''1st/2nd half drift'',
               Header ''Avg. BPM'', Header ''1st half avg. BPM'',
               Header ''2nd half avg. BPM'', Header ''1st/2nd hald BPM-only drift''],
              [Index 0, Value (VStr ''b.tcx''),
               Value (VTime (Aware (- 18000) \<lparr>utcoffset = - 18000, tzname = ''EST''\<rparr>)),
               Value (VTime (Aware (- 14370) \<lparr>utcoffset = - 14400, tzname = ''EDT''\<rparr>)),
               Value (VDur 30), Value (VNum (- (4 / 25))), Value (VNum 115), Value (VNum 105),
               Value (VNum 125), Value (VNum (4 / 21))]]"
proof -
  have d: "\<not> details example_args" and c: "columns example_args"
    by (simp_all add: example_args_def)
  have ok: "(case csv_output example_args [fst (lap_body example_args example_lap)] of
               Inl e \<Rightarrow> False | Inr lines \<Rightarrow> True)"
    by code_simp
  then obtain lines
    where lines: "csv_output example_args [fst (lap_body example_args example_lap)] = Inr lines"
    by (auto split: sum.splits)
  have cells:
    "map_of (fst (lap_body example_args example_lap)) Filename_col = Some (VStr ''b.tcx'')"
    "map_of (fst (lap_body example_args example_lap)) Beginning_time
       = Some (VTime (Aware (- 18000) \<lparr>utcoffset = - 18000, tzname = ''EST''\<rparr>))"
    "map_of (fst (lap_body example_args example_lap)) End_time
       = Some (VTime (Aware (- 14370) \<lparr>utcoffset = - 14400, tzname = ''EDT''\<rparr>))"
    "map_of (fst (lap_body example_args example_lap)) Duration = Some (VDur 30)"
    "map_of (fst (lap_body example_args example_lap)) Drift = Some (VNum (- (4 / 25)))"
    "map_of (fst (lap_body example_args example_lap)) Avg_BPM = Some (VNum 115)"
    "map_of (fst (lap_body example_args example_lap)) Half1_avg_BPM = Some (VNum 105)"
    "map_of (fst (lap_body example_args example_lap)) Half2_avg_BPM = Some (VNum 125)"
    "map_of (fst (lap_body example_args example_lap)) BPM_only_drift = Some (VNum (4 / 21))"
    by code_simp+
  from summary_report_columns [OF d lines] c d lines show ?thesis
    by (simp add: Let_def cells)
qed

text \<open>
  The claim C6 fails in the order of the columns: the header that the example report
  gets is not the header of the documented order.
\<close>

theorem summary_report_columns_counterexample:
  "(case csv_output example_args [fst (lap_body example_args example_lap)] of
      Inr (header # data) \<Rightarrow> tl header
    | _ \<Rightarrow> [])
   \<noteq> map (\<lambda>c. Header (column_name c)) documented_summary_columns"
  by code_simp

subsection \<open>The statements of the lap body\<close>






text \<open>Only the divisions of the lap body raise \<^verbatim>\<open>ZeroDivisionError\<close>.\<close>

lemma get_lap_times_not_zde [simp]:
  "get_lap_times_and_duration a lap \<noteq> Inl ZeroDivisionError"
  by (cases "Trackpoints_series lap"; cases "Lap_coords lap")
     (auto simp: get_lap_times_and_duration_def try_bind_def UTC_datetime2local_def
        astimezone_def Let_def split: sum.splits option.splits)

lemma series_ends_not_zde [simp]:
  "series_last xs \<noteq> Inl ZeroDivisionError" "series_first xs \<noteq> Inl ZeroDivisionError"
  by (simp_all add: series_last_def series_first_def split: list.splits)

lemma halves_not_zde [simp]:
  "first_half lap \<noteq> Inl ZeroDivisionError"
  "second_half lap \<noteq> Inl ZeroDivisionError"
  by (simp_all add: first_half_def second_half_def truncate_after_def loc_slice_def)

lemma pace_of_speed_not_zde [simp]:
  "pace_of_speed speed \<noteq> Inl ZeroDivisionError"
  by (simp add: pace_of_speed_def meter_sec_2_min_miles_def py_div_def
      mil_min_val_to_mil_min_string_def timedelta_of_minutes_def Let_def split: sum.splits)

subsection \<open>Division by zero\<close>













subsection \<open>Treadmill mode\<close>





subsection \<open>The treadmill setting and the heart-rate columns\<close>










end
